theory Spec2Isabelle
  imports Complex_Main
begin

section \<open>Numbers and exceptions\<close>

text \<open>
  Prices, budgets and profit figures are Python floats in the source. They are modelled
  as exact real numbers: every theorem below is about the arithmetic the source writes down,
  carried out without binary rounding error (and without NaN or infinities). Quantities
  and day counts are Python ints (\<open>int\<close>). Calendar dates are day numbers, so that
  \<open>(today - buy_date).days\<close> is a subtraction of integers.

  A computation that can raise returns an \<open>option\<close>: \<open>None\<close> says that an
  exception left the computation. The driver \<open>main\<close> has no handler around its
  loops, so there \<open>None\<close> is the end of the run.
\<close>

text \<open>Python's \<open>x / y\<close> on floats raises \<open>ZeroDivisionError\<close> when \<open>y\<close> is zero.\<close>

definition py_div :: "real \<Rightarrow> real \<Rightarrow> real option" where
  "py_div x y = (if y = 0 then None else Some (x / y))"

text \<open>Python's \<open>int(x)\<close> on a float truncates toward zero.\<close>

definition py_int :: "real \<Rightarrow> int" where
  "py_int x = (if 0 \<le> x then \<lfloor>x\<rfloor> else \<lceil>x\<rceil>)"

text \<open>Python's \<open>round(x)\<close>: to the nearest integer, ties to the even one.\<close>

definition py_round :: "real \<Rightarrow> int" where
  "py_round x =
     (let f = \<lfloor>x\<rfloor>; d = x - of_int f
      in if d < 1 / 2 then f
         else if 1 / 2 < d then f + 1
         else if even f then f else f + 1)"

text \<open>\<open>round(x, 2)\<close>: the same rounding at the second decimal place.\<close>

definition round2 :: "real \<Rightarrow> real" where
  "round2 x = of_int (py_round (x * 100)) / 100"

section \<open>Position classification (main.py, lines 146-177)\<close>

record holding =
  buy_price :: real
  buy_quantity :: int
  current_price :: real

record position =
  p_buy_price :: real
  p_buy_quantity :: int
  p_buy_date :: int
  p_current_price :: real

text \<open>
  \<open>profit_percentage\<close> as computed at lines 159-162 and again at 252-255: the test
  \<open>buy_price != 0\<close> first, the division only in its true branch.
\<close>

definition profit_percentage :: "real \<Rightarrow> real \<Rightarrow> real option" where
  "profit_percentage bp cp =
     (if bp \<noteq> 0 then map_option (\<lambda>r. r * 100) (py_div (cp - bp) bp) else Some 0)"

datatype bucket = Excluded | Profitable position | Non_profitable position

text \<open>
  One iteration of the loop at lines 146-177. \<open>buy_date\<close> is what
  \<open>get_buy_date\<close> returned (\<open>None\<close> when the date cannot be resolved). The
  result says which dictionary the position is stored in, and with which fields.
\<close>

definition classify :: "int \<Rightarrow> int option \<Rightarrow> holding \<Rightarrow> bucket option" where
  "classify today buy_date h =
     (case buy_date of
        None \<Rightarrow> Some Excluded
      | Some d \<Rightarrow>
          if d = today then Some Excluded
          else
            (case profit_percentage (buy_price h) (current_price h) of
               None \<Rightarrow> None
             | Some pp \<Rightarrow>
                 let pos = \<lparr>p_buy_price = buy_price h, p_buy_quantity = buy_quantity h,
                            p_buy_date = d, p_current_price = current_price h\<rparr>
                 in Some (if 0 < pp then Profitable pos else Non_profitable pos)))"

section \<open>Stop-loss pass (main.py, lines 215-276)\<close>

datatype side = BUY | SELL

record order =
  o_side :: side
  o_quantity :: int
  o_price :: real

datatype event = Fetch_price | Send order | Sleep

text \<open>
  One iteration of the stop-loss loop. \<open>cur_p\<close> is what \<open>get_current_price\<close>
  answers if it is asked; \<open>ok\<close> says whether \<open>send_order\<close> reports success for a
  given order. The result is the trace of what the iteration did (price fetches, orders,
  the pacing sleep) and the new value of \<open>(total_profit, sold_stocks)\<close>.
\<close>

definition stop_loss_step ::
  "int \<Rightarrow> real option \<Rightarrow> (order \<Rightarrow> bool) \<Rightarrow> position \<Rightarrow> real \<times> nat
     \<Rightarrow> (event list \<times> (real \<times> nat)) option"
where
  "stop_loss_step today cur_p ok pos acc =
     (let holding_period = today - p_buy_date pos
      in if 5 \<le> holding_period then
           case profit_percentage (p_buy_price pos) (p_current_price pos) of
             None \<Rightarrow> None
           | Some pp \<Rightarrow>
               if pp \<le> 0 then
                 (case cur_p of
                    None \<Rightarrow> Some ([Fetch_price], acc)
                  | Some p \<Rightarrow>
                      let loss_amount = (p - p_buy_price pos) * of_int (p_buy_quantity pos)
                      in if loss_amount \<le> 0 then
                           let ord = \<lparr>o_side = SELL, o_quantity = p_buy_quantity pos,
                                      o_price = p\<rparr>
                           in Some ([Fetch_price, Send ord, Sleep],
                                    if ok ord then (fst acc + loss_amount, Suc (snd acc))
                                    else acc)
                         else Some ([Fetch_price], acc))
               else Some ([], acc)
         else Some ([], acc))"

section \<open>Ladder walk (main.py, lines 341-392)\<close>

record ask =
  price :: real
  volume :: int

record walk_state =
  buy_amount :: real
  remaining_quantity :: int
  total_bought :: int
  buy_quantities :: "(real \<times> int) list"
  bought_stocks :: nat
  sent :: "order list"

text \<open>
  Line 343: the upper bound on the quantity, the budget divided by the lowest positive
  price of the ladder; the list \<open>[1]\<close> stands in when the ladder has no positive price.
\<close>

definition desired_quantity :: "real \<Rightarrow> ask list \<Rightarrow> int option" where
  "desired_quantity b asks =
     (let ps = filter (\<lambda>p. 0 < p) (map price asks)
      in map_option py_int (py_div b (min_list (if ps = [] then [1] else ps))))"

definition walk_init :: "real \<Rightarrow> int \<Rightarrow> nat \<Rightarrow> walk_state" where
  "walk_init b d n =
     \<lparr>buy_amount = b, remaining_quantity = d, total_bought = 0,
      buy_quantities = [], bought_stocks = n, sent = []\<rparr>"

text \<open>
  Lines 363-380: the BUY order at \<open>round(price, 2)\<close> and, if the router rejects it,
  the second one at \<open>round(price)\<close>. \<open>send_order\<close> is the environment:
  \<open>ok hist ord\<close> says whether the router reports success for \<open>ord\<close> after the
  orders \<open>hist\<close> were submitted before it. The result is the final
  \<open>order_info['success']\<close> and the orders submitted so far.
\<close>

definition submit_buy ::
  "(order list \<Rightarrow> order \<Rightarrow> bool) \<Rightarrow> real \<Rightarrow> int \<Rightarrow> order list \<Rightarrow> bool \<times> order list" where
  "submit_buy ok p buy_qty hist =
     (let order_price = round2 p;
          o1 = \<lparr>o_side = BUY, o_quantity = buy_qty, o_price = order_price\<rparr>
      in if \<not> ok hist o1 then
           let rounded_order_price = py_round p;
               o2 = \<lparr>o_side = BUY, o_quantity = buy_qty, o_price = of_int rounded_order_price\<rparr>
           in (ok (hist @ [o1]) o2, hist @ [o1, o2])
         else (True, hist @ [o1]))"

text \<open>Lines 382-388: the bookkeeping after a successful order.\<close>

definition record_fill :: "real \<Rightarrow> int \<Rightarrow> walk_state \<Rightarrow> walk_state" where
  "record_fill p buy_qty s =
     s\<lparr>buy_quantities := buy_quantities s @ [(round2 p, buy_qty)],
       total_bought := total_bought s + buy_qty,
       remaining_quantity := remaining_quantity s - buy_qty,
       bought_stocks := Suc (bought_stocks s),
       buy_amount := buy_amount s - of_int buy_qty * p\<rparr>"

text \<open>
  One iteration of the loop over the sorted ladder (lines 348-392). Every
  \<open>continue\<close> of the source skips the \<open>break\<close> test at the end of the body; the
  second component of the result says whether the loop breaks.
\<close>

definition walk_level ::
  "(order list \<Rightarrow> order \<Rightarrow> bool) \<Rightarrow> ask \<Rightarrow> walk_state \<Rightarrow> (walk_state \<times> bool) option" where
  "walk_level ok a s =
     (if price a \<le> 0 then Some (s, False)
      else
        case py_div (buy_amount s) (price a) of
          None \<Rightarrow> None
        | Some r \<Rightarrow>
            let possible_quantity = py_int r
            in if possible_quantity \<le> 0 then Some (s, False)
               else
                 let buy_qty = min (volume a) (min possible_quantity (remaining_quantity s))
                 in if buy_qty < 1 then Some (s, False)
                    else
                      case submit_buy ok (price a) buy_qty (sent s) of
                        (success, hist) \<Rightarrow>
                          let s1 = s\<lparr>sent := hist\<rparr>;
                              s2 = (if success then record_fill (price a) buy_qty s1 else s1)
                          in Some (s2, remaining_quantity s2 \<le> 0))"

fun walk :: "(order list \<Rightarrow> order \<Rightarrow> bool) \<Rightarrow> ask list \<Rightarrow> walk_state \<Rightarrow> walk_state option" where
  "walk ok [] s = Some s"
| "walk ok (a # as) s =
     (case walk_level ok a s of
        None \<Rightarrow> None
      | Some (s', brk) \<Rightarrow> if brk then Some s' else walk ok as s')"

text \<open>
  Lines 341-392 for one symbol with budget \<open>b\<close>: sort the ladder by price, compute the
  desired quantity, walk the sorted ladder. \<open>n\<close> is the value of the counter
  \<open>bought_stocks\<close> before this symbol.
\<close>

definition ladder_walk ::
  "(order list \<Rightarrow> order \<Rightarrow> bool) \<Rightarrow> real \<Rightarrow> ask list \<Rightarrow> nat \<Rightarrow> walk_state option" where
  "ladder_walk ok b asks n =
     (let asking_prices_sorted = sort_key price asks
      in case desired_quantity b asking_prices_sorted of
           None \<Rightarrow> None
         | Some d \<Rightarrow> walk ok asking_prices_sorted (walk_init b d n))"

text \<open>What the recorded fills add up to: quantity times recorded price.\<close>

definition fills_value :: "(real \<times> int) list \<Rightarrow> real" where
  "fills_value fs = (\<Sum>(p, q)\<leftarrow>fs. of_int q * p)"



section \<open>Responses of the provider\<close>

text \<open>
  What \<open>response.json()\<close> can return: any JSON value. Numbers are reals, as prices
  are; an object is the list of its members in the order of the text.
\<close>

datatype json =
  JNull | JBool bool | JNum real | JStr string | JArr "json list" | JObj "(string \<times> json) list"

text \<open>The exception classes that the handlers of the source tell apart.\<close>

datatype exn = HTTPError | RequestException | ValueError | TypeError | AttributeError

text \<open>Python's truth value of a decoded JSON value (\<open>if x:\<close>, \<open>not x\<close>).\<close>

fun truthy :: "json \<Rightarrow> bool" where
  "truthy JNull = False"
| "truthy (JBool b) = b"
| "truthy (JNum r) = (r \<noteq> 0)"
| "truthy (JStr s) = (s \<noteq> [])"
| "truthy (JArr xs) = (xs \<noteq> [])"
| "truthy (JObj kvs) = (kvs \<noteq> [])"

text \<open>
  \<open>d.get(key, default)\<close>: only a dict has the method, any other value raises
  \<open>AttributeError\<close>. When the text repeats a member name, the decoder keeps the last
  one. \<open>d.get(key)\<close> is \<open>py_get d key JNull\<close>.
\<close>

fun py_get :: "json \<Rightarrow> string \<Rightarrow> json \<Rightarrow> exn + json" where
  "py_get (JObj kvs) k dflt = Inr (case map_of (rev kvs) k of None \<Rightarrow> dflt | Some v \<Rightarrow> v)"
| "py_get _ k dflt = Inl AttributeError"

text \<open>
  \<open>float(x)\<close> and \<open>int(x)\<close> on a decoded value. How Python reads a string as a
  number is not part of the repository: \<open>float_of\<close> and \<open>int_of\<close> stand for it
  (\<open>None\<close> where Python raises \<open>ValueError\<close>), and every theorem holds for every
  choice of them. Lists, dicts and \<open>None\<close> raise \<open>TypeError\<close>.
\<close>

fun py_float :: "(string \<Rightarrow> real option) \<Rightarrow> json \<Rightarrow> exn + real" where
  "py_float float_of (JStr s) = (case float_of s of None \<Rightarrow> Inl ValueError | Some r \<Rightarrow> Inr r)"
| "py_float float_of (JNum r) = Inr r"
| "py_float float_of (JBool b) = Inr (if b then 1 else 0)"
| "py_float float_of _ = Inl TypeError"


text \<open>
  What a request gives back: either it raises (a transport failure is a
  \<open>RequestException\<close>), or there is a response with a status code, a body text and,
  when the text is JSON, its decoded value.
\<close>

record response =
  status_code :: nat
  body_text :: string
  decoded :: "json option"

text \<open>\<open>response.raise_for_status()\<close> followed by \<open>response.json()\<close>.\<close>

definition checked_json :: "exn + response \<Rightarrow> exn + json" where
  "checked_json r =
     (case r of
        Inl e \<Rightarrow> Inl e
      | Inr resp \<Rightarrow>
          if 400 \<le> status_code resp \<and> status_code resp < 600 then Inl HTTPError
          else (case decoded resp of None \<Rightarrow> Inl ValueError | Some d \<Rightarrow> Inr d))"

section \<open>Market data gateway (trading_api.py, lines 449-593)\<close>

text \<open>
  The body of the \<open>try\<close> in \<open>get_current_price\<close> for one venue (lines 478-505).
  \<open>Inr (Some p)\<close>: the function returns \<open>p\<close>; \<open>Inr None\<close>: a \<open>continue\<close>;
  \<open>Inl e\<close>: the exception \<open>e\<close> leaves the \<open>try\<close>. The inner handler of
  \<open>float\<close> catches \<open>ValueError\<close> only.
\<close>

definition quote_try :: "(string \<Rightarrow> real option) \<Rightarrow> exn + response \<Rightarrow> exn + real option" where
  "quote_try float_of r =
     (case checked_json r of
        Inl e \<Rightarrow> Inl e
      | Inr data \<Rightarrow>
          (case py_get data ''rt_cd'' JNull of
             Inl e \<Rightarrow> Inl e
           | Inr rt_cd \<Rightarrow>
               if rt_cd \<noteq> JStr ''0'' then Inr None
               else
                 (case py_get data ''output'' (JObj []) of
                    Inl e \<Rightarrow> Inl e
                  | Inr output \<Rightarrow>
                      if \<not> truthy output then Inr None
                      else
                        (case py_get output ''last'' JNull of
                           Inl e \<Rightarrow> Inl e
                         | Inr last_price_str \<Rightarrow>
                             if \<not> truthy last_price_str then Inr None
                             else
                               (case py_float float_of last_price_str of
                                  Inr last_price \<Rightarrow> Inr (Some last_price)
                                | Inl ValueError \<Rightarrow> Inr None
                                | Inl e \<Rightarrow> Inl e)))))"

text \<open>
  One venue with the handlers of lines 507-521: every exception class ends in
  \<open>continue\<close>.
\<close>

definition quote_venue :: "(string \<Rightarrow> real option) \<Rightarrow> exn + response \<Rightarrow> real option" where
  "quote_venue float_of r =
     (case quote_try float_of r of
        Inr res \<Rightarrow> res
      | Inl HTTPError \<Rightarrow> None
      | Inl RequestException \<Rightarrow> None
      | Inl ValueError \<Rightarrow> None
      | Inl _ \<Rightarrow> None)"

text \<open>
  The loop over the venues. \<open>get excd\<close> is what the request with \<open>EXCD = excd\<close>
  gives back. The result is the list of the venues asked, in the order of the requests,
  and the returned value.
\<close>

fun quote_loop ::
  "(string \<Rightarrow> real option) \<Rightarrow> (string \<Rightarrow> exn + response) \<Rightarrow> string list \<Rightarrow> string list \<times> real option" where
  "quote_loop float_of get [] = ([], None)"
| "quote_loop float_of get (excd # rest) =
     (case quote_venue float_of (get excd) of
        Some p \<Rightarrow> ([excd], Some p)
      | None \<Rightarrow> (case quote_loop float_of get rest of (asked, res) \<Rightarrow> (excd # asked, res)))"

definition exchange_order :: "string list" where
  "exchange_order = [''NAS'', ''NYS'', ''AMS'']"

definition get_current_price ::
  "(string \<Rightarrow> real option) \<Rightarrow> (string \<Rightarrow> exn + response) \<Rightarrow> string list \<times> real option" where
  "get_current_price float_of get = quote_loop float_of get exchange_order"






section \<open>Order router (trading_api.py, lines 122-244)\<close>

text \<open>\<open>needle in haystack\<close> on strings.\<close>

fun is_substring :: "string \<Rightarrow> string \<Rightarrow> bool" where
  "is_substring needle [] = (needle = [])"
| "is_substring needle (c # cs) =
     (take (length needle) (c # cs) = needle \<or> is_substring needle cs)"

text \<open>\<open>self.tr_id_map\<close> (lines 37-41).\<close>

definition tr_id_map :: "((string \<times> string) \<times> string) list" where
  "tr_id_map = [((''US'', ''BUY''), ''TTTT1002U''), ((''US'', ''SELL''), ''TTTT1006U'')]"

definition exchange_codes :: "string list" where
  "exchange_codes = [''NASD'', ''NYSE'', ''AMEX'']"

text \<open>
  What the router does to the outside, in order: a call of \<open>get_hashkey\<close> for the
  payload of a venue, the POST of the order to a venue, and \<open>time.sleep(1)\<close>.
\<close>

datatype router_event = Hash string | Post string | Backoff

text \<open>
  The environment of one submission. Both collaborators may answer differently from call
  to call: they see what the router has done so far. \<open>get_hashkey\<close> catches its own
  exceptions and returns \<open>None\<close> for them; \<open>session.post\<close> either raises (a
  \<open>RequestException\<close> for a transport failure, or something else) or gives a response.
\<close>

datatype send_failure = Request_failed | Unexpected_failure

record router_env =
  get_hashkey :: "router_event list \<Rightarrow> string \<Rightarrow> string option"
  session_post :: "router_event list \<Rightarrow> string \<Rightarrow> send_failure + response"

text \<open>The \<open>'data'\<close> of a successful result.\<close>

record order_data =
  d_quantity :: int
  d_price :: real
  d_exchange_code :: string
  d_odno :: json

text \<open>The four \<open>'error'\<close> messages of a failed result.\<close>

datatype order_failure = No_tr_id | Unknown_order_type | Hashkey_failed | All_exchanges_failed

text \<open>
  The body of the \<open>try\<close> for one venue (lines 191-221). \<open>Inr (Some odno)\<close>: the
  order was accepted and the function returns; \<open>Inr None\<close>: the \<open>continue\<close> of a
  rejected order; \<open>Inl\<close>: an exception leaves the \<open>try\<close>, with the response when it
  is the \<open>HTTPError\<close> of \<open>raise_for_status\<close>. In the rejected branch \<open>parse_error\<close>
  only builds the text that is logged.
\<close>

datatype order_exn = Http_error response | Other_exception

definition order_try :: "send_failure + response \<Rightarrow> order_exn + json option" where
  "order_try r =
     (case r of
        Inl f \<Rightarrow> Inl Other_exception
      | Inr resp \<Rightarrow>
          if 400 \<le> status_code resp \<and> status_code resp < 600 then Inl (Http_error resp)
          else
            (case decoded resp of
               None \<Rightarrow> Inl Other_exception
             | Some data \<Rightarrow>
                 (case py_get data ''rt_cd'' JNull of
                    Inl e \<Rightarrow> Inl Other_exception
                  | Inr rt_cd \<Rightarrow>
                      if rt_cd = JStr ''0'' then
                        (case py_get data ''output'' (JObj []) of
                           Inl e \<Rightarrow> Inl Other_exception
                         | Inr outp \<Rightarrow>
                             (case py_get outp ''ODNO'' JNull of
                                Inl e \<Rightarrow> Inl Other_exception
                              | Inr odno \<Rightarrow> Inr (Some odno)))
                      else Inr None)))"

text \<open>
  One venue with the handlers of lines 223-239. The handler of \<open>HTTPError\<close> sleeps one
  second on a rate-limit response (status 429, or \<open>EGW00201\<close> in the body) and then
  executes \<open>continue\<close>, as every other handler does.
\<close>

datatype attempt = Accepted json | Rate_limited | Next_exchange

definition order_venue :: "send_failure + response \<Rightarrow> attempt" where
  "order_venue r =
     (case order_try r of
        Inr (Some odno) \<Rightarrow> Accepted odno
      | Inr None \<Rightarrow> Next_exchange
      | Inl (Http_error resp) \<Rightarrow>
          if status_code resp = 429 \<or> is_substring ''EGW00201'' (body_text resp)
          then Rate_limited else Next_exchange
      | Inl Other_exception \<Rightarrow> Next_exchange)"

text \<open>
  The loop over the venues (lines 146-239): \<open>continue\<close> is the step to the rest of
  the list. \<open>ot\<close> is \<open>order_type.upper()\<close>.
\<close>

fun order_loop ::
  "router_env \<Rightarrow> string \<Rightarrow> int \<Rightarrow> real \<Rightarrow> string list \<Rightarrow> router_event list
     \<Rightarrow> router_event list \<times> (order_failure + order_data)" where
  "order_loop env ot quantity order_price [] tr = (tr, Inl All_exchanges_failed)"
| "order_loop env ot quantity order_price (exchange_code # rest) tr =
     (if ot \<noteq> ''BUY'' \<and> ot \<noteq> ''SELL'' then (tr, Inl Unknown_order_type)
      else
        let hashkey = get_hashkey env tr exchange_code;
            tr1 = tr @ [Hash exchange_code]
        in if hashkey = None \<or> hashkey = Some [] then (tr1, Inl Hashkey_failed)
           else
             let r = session_post env tr1 exchange_code;
                 tr2 = tr1 @ [Post exchange_code]
             in (case order_venue r of
                   Accepted odno \<Rightarrow>
                     (tr2, Inr \<lparr>d_quantity = quantity, d_price = order_price,
                                d_exchange_code = exchange_code, d_odno = odno\<rparr>)
                 | Rate_limited \<Rightarrow> order_loop env ot quantity order_price rest (tr2 @ [Backoff])
                 | Next_exchange \<Rightarrow> order_loop env ot quantity order_price rest tr2))"

text \<open>
  \<open>send_order\<close>. \<open>upper\<close> stands for \<open>str.upper\<close>, which is not part of the
  repository. The result is what the router did and the returned dictionary:
  \<open>Inr data\<close> for \<open>success: True\<close>, \<open>Inl reason\<close> for \<open>success: False\<close>.
\<close>

definition send_order ::
  "(string \<Rightarrow> string) \<Rightarrow> router_env \<Rightarrow> string \<Rightarrow> string \<Rightarrow> int \<Rightarrow> real
     \<Rightarrow> router_event list \<times> (order_failure + order_data)" where
  "send_order upper env symbol order_type quantity order_price =
     (case map_of tr_id_map (''US'', upper order_type) of
        None \<Rightarrow> ([], Inl No_tr_id)
      | Some tr_id \<Rightarrow>
          if tr_id = [] then ([], Inl No_tr_id)
          else order_loop env (upper order_type) quantity order_price exchange_codes [])"

text \<open>The venues an order was posted to, in order.\<close>

fun posts_of :: "router_event list \<Rightarrow> string list" where
  "posts_of [] = []"
| "posts_of (Post x # es) = x # posts_of es"
| "posts_of (e # es) = posts_of es"

section \<open>Session token cache (utils.py, lines 13-80)\<close>










section \<open>Properties of the arithmetic helpers\<close>

lemma py_div_Some: "y \<noteq> 0 \<Longrightarrow> py_div x y = Some (x / y)"
  by (simp add: py_div_def)





section \<open>Properties of the ladder walk\<close>














section \<open>Properties of the price lookup\<close>

lemma quote_venue_Some_iff:
  "quote_venue float_of r = Some p \<longleftrightarrow> quote_try float_of r = Inr (Some p)"
  by (auto simp: quote_venue_def split: sum.splits exn.splits)

lemma quote_loop_three:
  "quote_loop float_of get [a, b, c] =
     (case quote_venue float_of (get a) of
        Some p \<Rightarrow> ([a], Some p)
      | None \<Rightarrow>
          (case quote_venue float_of (get b) of
             Some p \<Rightarrow> ([a, b], Some p)
           | None \<Rightarrow>
               (case quote_venue float_of (get c) of
                  Some p \<Rightarrow> ([a, b, c], Some p)
                | None \<Rightarrow> ([a, b, c], None))))"
  by (simp split: option.splits)

lemma quote_try_Some_iff:
  "quote_try float_of r = Inr (Some p) \<longleftrightarrow>
     (\<exists>resp members out last.
        r = Inr resp
        \<and> \<not> (400 \<le> status_code resp \<and> status_code resp < 600)
        \<and> decoded resp = Some (JObj members)
        \<and> map_of (rev members) ''rt_cd'' = Some (JStr ''0'')
        \<and> map_of (rev members) ''output'' = Some (JObj out)
        \<and> map_of (rev out) ''last'' = Some last
        \<and> truthy last
        \<and> py_float float_of last = Inr p)"
  (is "?L \<longleftrightarrow> ?R")
proof
  assume ?L
  then obtain resp where r: "r = Inr resp"
    by (cases r) (simp_all add: quote_try_def checked_json_def)
  from \<open>?L\<close> r have st: "\<not> (400 \<le> status_code resp \<and> status_code resp < 600)"
    by (auto simp: quote_try_def checked_json_def split: if_splits)
  from \<open>?L\<close> r st obtain data where d: "decoded resp = Some data"
    by (cases "decoded resp") (auto simp: quote_try_def checked_json_def)
  from \<open>?L\<close> r st d obtain members where m: "data = JObj members"
    by (cases data) (auto simp: quote_try_def checked_json_def)
  have cj: "checked_json r = Inr (JObj members)"
    using r st d m by (auto simp: checked_json_def)
  from \<open>?L\<close> cj have rt: "map_of (rev members) ''rt_cd'' = Some (JStr ''0'')"
    by (auto simp: quote_try_def split: option.splits if_splits)
  from \<open>?L\<close> cj rt obtain outp where o: "map_of (rev members) ''output'' = Some outp" "truthy outp"
    by (cases "map_of (rev members) ''output''") (auto simp: quote_try_def split: if_splits)
  from \<open>?L\<close> cj rt o obtain out where out: "outp = JObj out"
    by (cases outp) (auto simp: quote_try_def split: if_splits)
  from \<open>?L\<close> cj rt o out obtain last where l: "map_of (rev out) ''last'' = Some last" "truthy last"
    by (cases "map_of (rev out) ''last''") (auto simp: quote_try_def split: if_splits)
  from \<open>?L\<close> cj rt o out l have "py_float float_of last = Inr p"
    by (auto simp: quote_try_def split: if_splits sum.splits exn.splits)
  with r st d m rt o out l show ?R by blast
next
  assume ?R
  then obtain resp members out last where
    h: "r = Inr resp" "\<not> (400 \<le> status_code resp \<and> status_code resp < 600)"
       "decoded resp = Some (JObj members)"
       "map_of (rev members) ''rt_cd'' = Some (JStr ''0'')"
       "map_of (rev members) ''output'' = Some (JObj out)"
       "map_of (rev out) ''last'' = Some last" "truthy last" "py_float float_of last = Inr p"
    by blast
  have "out \<noteq> []" using h(6) by auto
  with h show ?L
    by (auto simp: quote_try_def checked_json_def)
qed

section \<open>Properties of the ask ladder\<close>








section \<open>Properties of the order router\<close>

lemma posts_of_append: "posts_of (a @ b) = posts_of a @ posts_of b"
  by (induction a rule: posts_of.induct) simp_all

lemma order_loop_posts:
  "\<exists>k. posts_of (fst (order_loop env ot q p xs tr)) = posts_of tr @ take k xs"
proof (induction xs arbitrary: tr)
  case Nil
  show ?case by simp
next
  case (Cons x xs)
  have zero: "\<exists>k. posts_of tr = posts_of tr @ take k (x # xs)"
    by (rule exI [of _ 0]) simp
  have one: "\<exists>k. posts_of tr @ [x] = posts_of tr @ take k (x # xs)"
    by (rule exI [of _ 1]) simp
  have more: "\<exists>k. posts_of (fst (order_loop env ot q p xs tr')) = posts_of tr @ take k (x # xs)"
    if "posts_of tr' = posts_of tr @ [x]" for tr'
  proof -
    from Cons.IH [of tr'] obtain k where
      "posts_of (fst (order_loop env ot q p xs tr')) = posts_of tr' @ take k xs" by blast
    then have "posts_of (fst (order_loop env ot q p xs tr')) = posts_of tr @ take (Suc k) (x # xs)"
      using that by simp
    then show ?thesis by blast
  qed
  show ?case
    using zero one more [of "tr @ [Hash x, Post x]"] more [of "tr @ [Hash x, Post x, Backoff]"]
    by (auto simp: Let_def posts_of_append split: attempt.splits)
qed





section \<open>Properties of the token cache\<close>







section \<open>Classification of positions\<close>

text \<open>
  C5. The profit percentage is (current - entry) / entry * 100, and 0 when the entry
  price is 0; its computation never divides by zero, so it always yields a value. A
  position that is classified (entry date known and not today) is stored in the
  profit-taking bucket exactly when that percentage is positive and in the
  stop-loss-candidate bucket exactly when it is zero or negative, so the bucket depends
  on the entry price and the current price only. Entry 100 with current 110 is
  profit-taking; entry 100 with current 100, and entry 0 with any current price, are
  stop-loss candidates.
\<close>

theorem classify_by_profit_sign:
  "profit_percentage e c = Some (if e = 0 then 0 else (c - e) / e * 100)
   \<and> (d \<noteq> today \<longrightarrow>
        classify today (Some d) \<lparr>buy_price = e, buy_quantity = q, current_price = c\<rparr> =
          Some ((if 0 < (if e = 0 then 0 else (c - e) / e * 100)
                 then Profitable else Non_profitable)
                  \<lparr>p_buy_price = e, p_buy_quantity = q, p_buy_date = d, p_current_price = c\<rparr>)
        \<and> classify today (Some d) \<lparr>buy_price = 100, buy_quantity = q, current_price = 110\<rparr> =
            Some (Profitable
                  \<lparr>p_buy_price = 100, p_buy_quantity = q, p_buy_date = d, p_current_price = 110\<rparr>)
        \<and> classify today (Some d) \<lparr>buy_price = 100, buy_quantity = q, current_price = 100\<rparr> =
            Some (Non_profitable
                  \<lparr>p_buy_price = 100, p_buy_quantity = q, p_buy_date = d, p_current_price = 100\<rparr>)
        \<and> classify today (Some d) \<lparr>buy_price = 0, buy_quantity = q, current_price = c\<rparr> =
            Some (Non_profitable
                  \<lparr>p_buy_price = 0, p_buy_quantity = q, p_buy_date = d, p_current_price = c\<rparr>))"
  by (simp add: profit_percentage_def py_div_def classify_def Let_def)

theorem classify_by_profit_sign_witness:
  "(10::int) \<noteq> 20
   \<and> profit_percentage 0 7 = Some 0
   \<and> classify 20 (Some 10) \<lparr>buy_price = 0, buy_quantity = 3, current_price = 7\<rparr>
     = Some (Non_profitable
          \<lparr>p_buy_price = 0, p_buy_quantity = 3, p_buy_date = 10, p_current_price = 7\<rparr>)
   \<and> classify 20 (Some 10) \<lparr>buy_price = 100, buy_quantity = 3, current_price = 110\<rparr>
     = Some (Profitable
          \<lparr>p_buy_price = 100, p_buy_quantity = 3, p_buy_date = 10, p_current_price = 110\<rparr>)"
  using classify_by_profit_sign [of 0 7 10 20 3] by simp

section \<open>Stop-loss gating\<close>

text \<open>
  C4. For a position of the stop-loss-candidate bucket: with a holding period below 5
  days nothing is done at all (no price fetch, no order), whatever the profit
  percentage. With a holding period of at least 5 days and a snapshot profit percentage
  of zero or less, the live price is fetched; a SELL of the whole quantity at the live
  price is submitted, once, exactly when the fetch gave a price and
  (live price - entry price) * quantity is zero or negative; at a recomputed gain, and
  when no price comes back, no order is submitted. With a holding period of at least 5
  days and a positive snapshot percentage nothing is done.
\<close>

theorem stop_loss_gating:
  "(today - p_buy_date pos < 5 \<longrightarrow> stop_loss_step today cur_p ok pos acc = Some ([], acc))
   \<and> (5 \<le> today - p_buy_date pos \<longrightarrow>
        stop_loss_step today cur_p ok pos acc =
          Some (if (if p_buy_price pos = 0 then 0
                    else (p_current_price pos - p_buy_price pos) / p_buy_price pos * 100) \<le> 0
                then (case cur_p of
                        None \<Rightarrow> ([Fetch_price], acc)
                      | Some p \<Rightarrow>
                          if (p - p_buy_price pos) * of_int (p_buy_quantity pos) \<le> 0
                          then ([Fetch_price,
                                 Send \<lparr>o_side = SELL, o_quantity = p_buy_quantity pos, o_price = p\<rparr>,
                                 Sleep],
                                if ok \<lparr>o_side = SELL, o_quantity = p_buy_quantity pos, o_price = p\<rparr>
                                then (fst acc + (p - p_buy_price pos) * of_int (p_buy_quantity pos),
                                      Suc (snd acc))
                                else acc)
                          else ([Fetch_price], acc))
                else ([], acc)))"
  by (simp add: stop_loss_step_def profit_percentage_def py_div_def Let_def split: option.split)

theorem stop_loss_gating_witness:
  "stop_loss_step 9 (Some 50) (\<lambda>_. True)
       \<lparr>p_buy_price = 100, p_buy_quantity = 3, p_buy_date = 5, p_current_price = 10\<rparr> (0, 0)
     = Some ([], (0, 0))
   \<and> stop_loss_step 10 (Some 97) (\<lambda>_. True)
       \<lparr>p_buy_price = 100, p_buy_quantity = 3, p_buy_date = 5, p_current_price = 97\<rparr> (0, 0)
     = Some ([Fetch_price, Send \<lparr>o_side = SELL, o_quantity = 3, o_price = 97\<rparr>, Sleep], (- 9, 1))
   \<and> stop_loss_step 10 (Some 101) (\<lambda>_. True)
       \<lparr>p_buy_price = 100, p_buy_quantity = 3, p_buy_date = 5, p_current_price = 97\<rparr> (0, 0)
     = Some ([Fetch_price], (0, 0))"
  using stop_loss_gating [of 9 "\<lparr>p_buy_price = 100, p_buy_quantity = 3, p_buy_date = 5, p_current_price = 10\<rparr>"
                             "Some 50" "\<lambda>_. True" "(0, 0)"]
        stop_loss_gating [of 10 "\<lparr>p_buy_price = 100, p_buy_quantity = 3, p_buy_date = 5, p_current_price = 97\<rparr>"
                             "Some 97" "\<lambda>_. True" "(0, 0)"]
        stop_loss_gating [of 10 "\<lparr>p_buy_price = 100, p_buy_quantity = 3, p_buy_date = 5, p_current_price = 97\<rparr>"
                             "Some 101" "\<lambda>_. True" "(0, 0)"]
  by simp

section \<open>The ladder walk and the budget\<close>




section \<open>The ladder scenario\<close>

text \<open>
  The remaining budget of the scenario is not 23.5.
\<close>

theorem ladder_scenario_remaining_budget:
  "map_option buy_amount
     (ladder_walk (\<lambda>_ _. True) 100
        [\<lparr>price = 9.5, volume = 5\<rparr>, \<lparr>price = 9.6, volume = 20\<rparr>, \<lparr>price = 9.8, volume = 100\<rparr>] 0)
   \<noteq> Some 23.5"
  by (simp add: ladder_walk_def desired_quantity_def py_div_def py_int_def walk_init_def
        walk_level_def submit_buy_def record_fill_def round2_def py_round_def fills_value_def Let_def)

text \<open>
  C3 (as amended). On the ladder (9.50, 5), (9.60, 20), (9.80, 100) with budget 100,
  every submitted order succeeding, the desired quantity is floor(100 / 9.50) = 10; the
  walk fills 5 at 9.50 and then 5 at 9.60 and stops because the remaining desired
  quantity is 0; the total is 10 shares in exactly two order submissions, and the
  remaining budget is 100 - 5 * 9.50 - 5 * 9.60 = 4.5.
\<close>

theorem ladder_scenario:
  "desired_quantity 100
     [\<lparr>price = 9.5, volume = 5\<rparr>, \<lparr>price = 9.6, volume = 20\<rparr>, \<lparr>price = 9.8, volume = 100\<rparr>] = Some 10
   \<and> ladder_walk (\<lambda>_ _. True) 100
        [\<lparr>price = 9.5, volume = 5\<rparr>, \<lparr>price = 9.6, volume = 20\<rparr>, \<lparr>price = 9.8, volume = 100\<rparr>] n =
       Some \<lparr>buy_amount = 4.5, remaining_quantity = 0, total_bought = 10,
             buy_quantities = [(9.5, 5), (9.6, 5)], bought_stocks = Suc (Suc n),
             sent = [\<lparr>o_side = BUY, o_quantity = 5, o_price = 9.5\<rparr>,
                     \<lparr>o_side = BUY, o_quantity = 5, o_price = 9.6\<rparr>]\<rparr>
   \<and> (100::real) - 5 * 9.5 - 5 * 9.6 = 4.5"
  by (simp add: ladder_walk_def desired_quantity_def py_div_def py_int_def walk_init_def
        walk_level_def submit_buy_def record_fill_def round2_def py_round_def fills_value_def Let_def)

section \<open>The retry at an integer price\<close>

text \<open>
  C10. At a level that the walk tries (positive price \<open>p\<close>, fill quantity \<open>q\<close> of at
  least one share), when the router rejects the BUY at \<open>round(p, 2)\<close> and accepts the
  retry at the integer price \<open>round(p)\<close>: both orders were submitted, the fill appended
  to the plan records the price \<open>round(p, 2)\<close>, not the integer price, and the
  remaining budget goes down by \<open>q * p\<close> with the raw ladder price; the totals and the
  remaining quantity move by \<open>q\<close>.
\<close>

theorem walk_level_integer_retry:
  assumes "0 < price a"
    and "q = min (volume a) (min (py_int (buy_amount s / price a)) (remaining_quantity s))"
    and "1 \<le> q"
    and "\<not> ok (sent s) \<lparr>o_side = BUY, o_quantity = q, o_price = round2 (price a)\<rparr>"
    and "ok (sent s @ [\<lparr>o_side = BUY, o_quantity = q, o_price = round2 (price a)\<rparr>])
            \<lparr>o_side = BUY, o_quantity = q, o_price = of_int (py_round (price a))\<rparr>"
  shows "walk_level ok a s =
           Some (s\<lparr>sent := sent s @ [\<lparr>o_side = BUY, o_quantity = q, o_price = round2 (price a)\<rparr>,
                                     \<lparr>o_side = BUY, o_quantity = q,
                                       o_price = of_int (py_round (price a))\<rparr>],
                   buy_quantities := buy_quantities s @ [(round2 (price a), q)],
                   total_bought := total_bought s + q,
                   remaining_quantity := remaining_quantity s - q,
                   bought_stocks := Suc (bought_stocks s),
                   buy_amount := buy_amount s - of_int q * price a\<rparr>,
                 remaining_quantity s - q \<le> 0)"
proof -
  have "q \<le> py_int (buy_amount s / price a)"
    unfolding assms(2) by simp
  with assms(3) have "\<not> py_int (buy_amount s / price a) \<le> 0" by linarith
  moreover have "\<not> q < 1" using assms(3) by simp
  ultimately have g: "\<not> price a \<le> 0" "price a \<noteq> 0"
      "\<not> py_int (buy_amount s / price a) \<le> 0" "\<not> q < 1"
    using assms(1) by simp_all
  have sb: "submit_buy ok (price a) q (sent s) =
              (True, sent s @ [\<lparr>o_side = BUY, o_quantity = q, o_price = round2 (price a)\<rparr>,
                               \<lparr>o_side = BUY, o_quantity = q,
                                 o_price = of_int (py_round (price a))\<rparr>])"
    using assms(4,5) by (simp add: submit_buy_def Let_def)
  show ?thesis
    using g sb unfolding walk_level_def py_div_def assms(2)
    by (simp add: Let_def record_fill_def)
qed

theorem walk_level_integer_retry_witness:
  "walk_level (\<lambda>_ ord. o_price ord = 10) \<lparr>price = 10.256, volume = 3\<rparr>
     \<lparr>buy_amount = 100, remaining_quantity = 5, total_bought = 0, buy_quantities = [],
      bought_stocks = 0, sent = []\<rparr> =
   Some (\<lparr>buy_amount = 69.232, remaining_quantity = 2, total_bought = 3,
          buy_quantities = [(10.26, 3)], bought_stocks = 1,
          sent = [\<lparr>o_side = BUY, o_quantity = 3, o_price = 10.26\<rparr>,
                  \<lparr>o_side = BUY, o_quantity = 3, o_price = 10\<rparr>]\<rparr>, False)"
  using walk_level_integer_retry [of "\<lparr>price = 10.256, volume = 3\<rparr>" 3
     "\<lparr>buy_amount = 100, remaining_quantity = 5, total_bought = 0, buy_quantities = [],
      bought_stocks = 0, sent = []\<rparr>" "\<lambda>_ ord. o_price ord = 10"]
  by (simp add: round2_def py_round_def py_int_def Let_def)

section \<open>The last-price lookup\<close>

text \<open>
  The lookup returns a price that is not positive: a venue that answers with the price
  field \<open>0.0000\<close> (read as 0, as \<open>float\<close> reads it) ends the lookup with the
  result 0.
\<close>

theorem get_current_price_zero_price:
  "get_current_price (\<lambda>s. if s = ''0.0000'' then Some 0 else None)
     (\<lambda>excd. Inr \<lparr>status_code = 200, body_text = [],
                   decoded = Some (JObj [(''rt_cd'', JStr ''0''),
                                         (''output'', JObj [(''last'', JStr ''0.0000'')])])\<rparr>)
   = ([''NAS''], Some 0)
   \<and> \<not> (0 :: real) < 0"
  by (simp add: get_current_price_def exchange_order_def quote_venue_def quote_try_def
        checked_json_def)

text \<open>
  C7 (as amended). For every symbol the lookup asks the venues NAS, NYS, AMS in this
  order and stops at the first one that yields a price; it returns \<open>None\<close> only after
  all three were asked and none yielded one; no failure of a venue (transport error,
  error status, body that is not JSON or not of the expected shape, missing or
  unreadable price field) leaves the lookup as an exception. A venue yields the price
  \<open>p\<close> exactly when its response has a status outside 400-599 and a JSON object with
  \<open>rt_cd\<close> equal to \<open>'0'\<close> and an object \<open>output\<close> whose member \<open>last\<close>
  is truthy and is read by \<open>float\<close> as \<open>p\<close>; the sign of \<open>p\<close> is not tested.
\<close>

theorem get_current_price_fallback:
  "get_current_price float_of get =
     (case quote_venue float_of (get ''NAS'') of
        Some p \<Rightarrow> ([''NAS''], Some p)
      | None \<Rightarrow>
          (case quote_venue float_of (get ''NYS'') of
             Some p \<Rightarrow> ([''NAS'', ''NYS''], Some p)
           | None \<Rightarrow>
               (case quote_venue float_of (get ''AMS'') of
                  Some p \<Rightarrow> ([''NAS'', ''NYS'', ''AMS''], Some p)
                | None \<Rightarrow> ([''NAS'', ''NYS'', ''AMS''], None))))
   \<and> (\<forall>r p. quote_venue float_of r = Some p \<longleftrightarrow>
         (\<exists>resp members out last.
            r = Inr resp
            \<and> \<not> (400 \<le> status_code resp \<and> status_code resp < 600)
            \<and> decoded resp = Some (JObj members)
            \<and> map_of (rev members) ''rt_cd'' = Some (JStr ''0'')
            \<and> map_of (rev members) ''output'' = Some (JObj out)
            \<and> map_of (rev out) ''last'' = Some last
            \<and> truthy last
            \<and> py_float float_of last = Inr p))"
  unfolding get_current_price_def exchange_order_def quote_loop_three
  by (simp add: quote_venue_Some_iff quote_try_Some_iff)

theorem get_current_price_fallback_witness:
  "get_current_price (\<lambda>s. if s = ''9.5'' then Some 9.5 else None)
     (\<lambda>excd. if excd = ''NYS''
              then Inr \<lparr>status_code = 200, body_text = [],
                        decoded = Some (JObj [(''rt_cd'', JStr ''0''),
                                              (''output'', JObj [(''last'', JStr ''9.5'')])])\<rparr>
              else Inl RequestException)
   = ([''NAS'', ''NYS''], Some 9.5)"
  using get_current_price_fallback [of "\<lambda>s. if s = ''9.5'' then Some 9.5 else None"
     "\<lambda>excd. if excd = ''NYS''
              then Inr \<lparr>status_code = 200, body_text = [],
                        decoded = Some (JObj [(''rt_cd'', JStr ''0''),
                                              (''output'', JObj [(''last'', JStr ''9.5'')])])\<rparr>
              else Inl RequestException"]
  by (simp add: quote_venue_def quote_try_def checked_json_def)

section \<open>The ask ladder\<close>




section \<open>The order router\<close>

text \<open>
  C1. The claim is that a venue answering with a rate-limit signal is tried a second
  time after the backoff before the router moves on. The router does not do that: for
  every environment the venues it posts to are an initial part of NASD, NYSE, AMEX, so
  no venue is ever posted to twice; and when NASD answers with status 429 the router
  sleeps and then posts to NYSE, where the order is accepted. The order of the venues
  is the fixed one, as the claim says.
\<close>

theorem send_order_rate_limit_no_retry:
  "(\<exists>k. posts_of (fst (send_order upper env symbol order_type quantity order_price))
          = take k [''NASD'', ''NYSE'', ''AMEX''])
   \<and> send_order (\<lambda>s. s)
        \<lparr>get_hashkey = (\<lambda>tr exchange_code. Some ''hash''),
         session_post = (\<lambda>tr exchange_code.
            if exchange_code = ''NASD''
            then Inr \<lparr>status_code = 429, body_text = ''EGW00201'', decoded = None\<rparr>
            else Inr \<lparr>status_code = 200, body_text = [],
                      decoded = Some (JObj [(''rt_cd'', JStr ''0''),
                                            (''output'', JObj [(''ODNO'', JStr ''0030138295'')])])\<rparr>)\<rparr>
        ''AAPL'' ''BUY'' 1 10
      = ([Hash ''NASD'', Post ''NASD'', Backoff, Hash ''NYSE'', Post ''NYSE''],
         Inr \<lparr>d_quantity = 1, d_price = 10, d_exchange_code = ''NYSE'',
              d_odno = JStr ''0030138295''\<rparr>)"
proof
  show "\<exists>k. posts_of (fst (send_order upper env symbol order_type quantity order_price))
          = take k [''NASD'', ''NYSE'', ''AMEX'']"
  proof (cases "\<exists>t. map_of tr_id_map (''US'', upper order_type) = Some t \<and> t \<noteq> []")
    case True
    then have "send_order upper env symbol order_type quantity order_price
                 = order_loop env (upper order_type) quantity order_price exchange_codes []"
      by (auto simp: send_order_def)
    with order_loop_posts [of env "upper order_type" quantity order_price exchange_codes "[]"]
    show ?thesis by (simp add: exchange_codes_def)
  next
    case False
    then have "fst (send_order upper env symbol order_type quantity order_price) = []"
      by (auto simp: send_order_def split: option.splits)
    then have "posts_of (fst (send_order upper env symbol order_type quantity order_price))
                 = take 0 [''NASD'', ''NYSE'', ''AMEX'']" by simp
    then show ?thesis by blast
  qed
next
  show "send_order (\<lambda>s. s)
        \<lparr>get_hashkey = (\<lambda>tr exchange_code. Some ''hash''),
         session_post = (\<lambda>tr exchange_code.
            if exchange_code = ''NASD''
            then Inr \<lparr>status_code = 429, body_text = ''EGW00201'', decoded = None\<rparr>
            else Inr \<lparr>status_code = 200, body_text = [],
                      decoded = Some (JObj [(''rt_cd'', JStr ''0''),
                                            (''output'', JObj [(''ODNO'', JStr ''0030138295'')])])\<rparr>)\<rparr>
        ''AAPL'' ''BUY'' 1 10
      = ([Hash ''NASD'', Post ''NASD'', Backoff, Hash ''NYSE'', Post ''NYSE''],
         Inr \<lparr>d_quantity = 1, d_price = 10, d_exchange_code = ''NYSE'',
              d_odno = JStr ''0030138295''\<rparr>)"
    by (simp add: send_order_def tr_id_map_def exchange_codes_def order_venue_def order_try_def
          Let_def)
qed



section \<open>The token cache\<close>



end
